theory Spec2Isabelle
  imports Main "HOL-Library.Word"
begin

section \<open>Strings of UTF-16 code units\<close>

text \<open>
  A string of the program is a sequence of 16-bit code units. \<open>code\<close> gives the code unit
  of an ASCII character and \<open>js\<close> the string of an ASCII literal.
\<close>

type_synonym u16 = "16 word"
type_synonym jsstring = "u16 list"

definition code :: "char \<Rightarrow> u16" where
  "code c = of_nat (of_char c)"

definition js :: "string \<Rightarrow> jsstring" where
  "js s = map code s"

text \<open>
  The code units that \<open>String.prototype.trim\<close> removes and that \<open>\s\<close> matches: the
  WhiteSpace and LineTerminator productions of ECMAScript (TAB, LF, VT, FF, CR, SP, NBSP,
  the Unicode space separators, LS, PS and the byte order mark).
\<close>

definition is_space :: "u16 \<Rightarrow> bool" where
  "is_space c =
     (c = 0x9 \<or> c = 0xA \<or> c = 0xB \<or> c = 0xC \<or> c = 0xD \<or> c = 0x20 \<or> c = 0xA0 \<or>
      c = 0x1680 \<or> (0x2000 \<le> c \<and> c \<le> 0x200A) \<or> c = 0x2028 \<or> c = 0x2029 \<or>
      c = 0x202F \<or> c = 0x205F \<or> c = 0x3000 \<or> c = 0xFEFF)"

definition trim :: "jsstring \<Rightarrow> jsstring" where
  "trim s = rev (dropWhile is_space (rev (dropWhile is_space s)))"

text \<open>
  \<open>String.prototype.toLowerCase\<close> follows the Unicode case tables of the host, which the
  repository does not contain. The functions that call it take it as the parameter
  \<open>toLowerCase\<close>; \<open>lowercases_ascii\<close> is the part of its contract that is used: on a
  string of ASCII code units it maps \<open>A\<close>..\<open>Z\<close> to \<open>a\<close>..\<open>z\<close> and leaves every other code
  unit alone. \<open>toLowerCase_ascii\<close> is one function that meets the contract.
\<close>

definition is_ascii :: "u16 \<Rightarrow> bool" where
  "is_ascii c = (c < 0x80)"

definition ascii_lower :: "u16 \<Rightarrow> u16" where
  "ascii_lower c = (if code CHR ''A'' \<le> c \<and> c \<le> code CHR ''Z'' then c + 0x20 else c)"

definition lowercases_ascii :: "(jsstring \<Rightarrow> jsstring) \<Rightarrow> bool" where
  "lowercases_ascii toLowerCase =
     (\<forall>s. list_all is_ascii s \<longrightarrow> toLowerCase s = map ascii_lower s)"

definition toLowerCase_ascii :: "jsstring \<Rightarrow> jsstring" where
  "toLowerCase_ascii s = map ascii_lower s"

subsection \<open>The three shapes of \<open>String.prototype.replace\<close> in the program\<close>

text \<open>
  \<open>s.replace(/[cls]+/g, rep)\<close>: the scan goes left to right; at a code unit of the class
  the match is the longest run of the class from there, it is replaced by \<open>rep\<close> and the
  scan goes on behind the match; any other code unit is copied.
\<close>

function replace_plus_g :: "(u16 \<Rightarrow> bool) \<Rightarrow> jsstring \<Rightarrow> jsstring \<Rightarrow> jsstring" where
  "replace_plus_g cls rep [] = []"
| "replace_plus_g cls rep (c # cs) =
     (if cls c then rep @ replace_plus_g cls rep (dropWhile cls cs)
      else c # replace_plus_g cls rep cs)"
  by pat_completeness auto
termination
  by (relation "measure (\<lambda>(cls, rep, s). length s)")
     (auto simp: le_imp_less_Suc length_dropWhile_le)

text \<open>\<open>s.replace(/^[cls]/, rep)\<close>: only a first code unit of the class is replaced.\<close>

fun replace_at_start :: "(u16 \<Rightarrow> bool) \<Rightarrow> jsstring \<Rightarrow> jsstring \<Rightarrow> jsstring" where
  "replace_at_start cls rep [] = []"
| "replace_at_start cls rep (c # cs) = (if cls c then rep @ cs else c # cs)"

text \<open>
  \<open>s.replace(/[cls]+$/g, rep)\<close>: at each position the match needs a non-empty run of the
  class that reaches the end of the string; the first position where this holds is
  replaced, and nothing is left to scan behind it.
\<close>

fun replace_plus_at_end :: "(u16 \<Rightarrow> bool) \<Rightarrow> jsstring \<Rightarrow> jsstring \<Rightarrow> jsstring" where
  "replace_plus_at_end cls rep [] = []"
| "replace_plus_at_end cls rep (c # cs) =
     (if cls c \<and> dropWhile cls cs = [] then rep
      else c # replace_plus_at_end cls rep cs)"

subsection \<open>Anchored regular expressions\<close>

text \<open>
  The regular expressions that the program tests are built from character classes,
  sequence, the optional group and the star of a class. \<open>remainders r s\<close> lists, in the
  order a backtracking matcher tries them, what is left of \<open>s\<close> behind each match of \<open>r\<close>
  at its start; \<open>/^r$/.test(s)\<close> holds when one match leaves nothing.
\<close>

datatype rexp =
    Cls "u16 \<Rightarrow> bool"
  | Seq rexp rexp
  | Opt rexp
  | StarCls "u16 \<Rightarrow> bool"

fun star_remainders :: "(u16 \<Rightarrow> bool) \<Rightarrow> jsstring \<Rightarrow> jsstring list" where
  "star_remainders cls [] = [] # []"
| "star_remainders cls (c # cs) =
     (if cls c then star_remainders cls cs @ [c # cs] else [c # cs])"

fun remainders :: "rexp \<Rightarrow> jsstring \<Rightarrow> jsstring list" where
  "remainders (Cls cls) s = (case s of [] \<Rightarrow> [] | c # cs \<Rightarrow> if cls c then [cs] else [])"
| "remainders (Seq r1 r2) s = concat (map (remainders r2) (remainders r1 s))"
| "remainders (Opt r) s = remainders r s @ [s]"
| "remainders (StarCls cls) s = star_remainders cls s"

definition test_anchored :: "rexp \<Rightarrow> jsstring \<Rightarrow> bool" where
  "test_anchored r s = list_ex (\<lambda>t. t = []) (remainders r s)"

section \<open>Name normalizer\<close>

definition is_slash :: "u16 \<Rightarrow> bool" where
  "is_slash c = (c = code CHR ''/'')"

text \<open>\<open>targetDir?.trim().replace(/\/+$/g, '')\<close>; \<open>undefined\<close> is \<open>None\<close>.\<close>

definition formatTargetDir :: "jsstring option \<Rightarrow> jsstring option" where
  "formatTargetDir targetDir =
     map_option (\<lambda>s. replace_plus_at_end is_slash [] (trim s)) targetDir"

text \<open>The character classes of the two regular expressions on package names.\<close>

definition is_az :: "u16 \<Rightarrow> bool" where
  "is_az c = (code CHR ''a'' \<le> c \<and> c \<le> code CHR ''z'')"

definition is_digit :: "u16 \<Rightarrow> bool" where
  "is_digit c = (code CHR ''0'' \<le> c \<and> c \<le> code CHR ''9'')"

definition name_first :: "u16 \<Rightarrow> bool" where
  \<comment> \<open>\<open>[a-z\d\-~]\<close>\<close>
  "name_first c = (is_az c \<or> is_digit c \<or> c = code CHR ''-'' \<or> c = code CHR ''~'')"

definition name_rest :: "u16 \<Rightarrow> bool" where
  \<comment> \<open>\<open>[a-z\d\-._~]\<close>\<close>
  "name_rest c =
     (is_az c \<or> is_digit c \<or> c = code CHR ''-'' \<or> c = code CHR ''.'' \<or>
      c = code CHR ''_'' \<or> c = code CHR ''~'')"

definition scope_first :: "u16 \<Rightarrow> bool" where
  \<comment> \<open>\<open>[a-z\d\-*~]\<close>\<close>
  "scope_first c =
     (is_az c \<or> is_digit c \<or> c = code CHR ''-'' \<or> c = code CHR ''*'' \<or>
      c = code CHR ''~'')"

definition scope_rest :: "u16 \<Rightarrow> bool" where
  \<comment> \<open>\<open>[a-z\d\-*._~]\<close>\<close>
  "scope_rest c =
     (is_az c \<or> is_digit c \<or> c = code CHR ''-'' \<or> c = code CHR ''*'' \<or>
      c = code CHR ''.'' \<or> c = code CHR ''_'' \<or> c = code CHR ''~'')"

definition is_dot_or_underscore :: "u16 \<Rightarrow> bool" where
  \<comment> \<open>\<open>[._]\<close>\<close>
  "is_dot_or_underscore c = (c = code CHR ''.'' \<or> c = code CHR ''_'')"

definition not_name_first :: "u16 \<Rightarrow> bool" where
  \<comment> \<open>\<open>[^a-z\d\-~]\<close>\<close>
  "not_name_first c = (\<not> name_first c)"

definition package_name_regex :: rexp where
  \<comment> \<open>\<open>^(?:@[a-z\d\-*~][a-z\d\-*._~]*\/)?[a-z\d\-~][a-z\d\-._~]*$\<close>\<close>
  "package_name_regex =
     Seq (Opt (Seq (Cls (\<lambda>c. c = code CHR ''@''))
              (Seq (Cls scope_first) (Seq (StarCls scope_rest) (Cls is_slash)))))
         (Seq (Cls name_first) (StarCls name_rest))"

definition isValidPackageName :: "jsstring \<Rightarrow> bool" where
  "isValidPackageName projectName = test_anchored package_name_regex projectName"

definition hyphen :: jsstring where
  "hyphen = js ''-''"

definition toValidPackageName :: "(jsstring \<Rightarrow> jsstring) \<Rightarrow> jsstring \<Rightarrow> jsstring" where
  "toValidPackageName toLowerCase projectName =
     replace_plus_g not_name_first hyphen
       (replace_at_start is_dot_or_underscore []
         (replace_plus_g is_space hyphen
           (toLowerCase (trim projectName))))"

subsection \<open>The normalizer as the specification words it\<close>

text \<open>
  A run is a maximal block of neighbouring code units that are all inside or all outside
  a class; \<open>runs\<close> cuts a string into its runs.
\<close>

function runs :: "(u16 \<Rightarrow> bool) \<Rightarrow> jsstring \<Rightarrow> jsstring list" where
  "runs cls [] = []"
| "runs cls (c # cs) =
     (c # takeWhile (\<lambda>d. cls d = cls c) cs) # runs cls (dropWhile (\<lambda>d. cls d = cls c) cs)"
  by pat_completeness auto
termination
  by (relation "measure (\<lambda>(cls, s). length s)")
     (auto simp: le_imp_less_Suc length_dropWhile_le)

definition each_run_to_hyphen :: "(u16 \<Rightarrow> bool) \<Rightarrow> jsstring \<Rightarrow> jsstring" where
  "each_run_to_hyphen cls s =
     concat (map (\<lambda>run. if cls (hd run) then hyphen else run) (runs cls s))"

definition strip_one_leading :: "(u16 \<Rightarrow> bool) \<Rightarrow> jsstring \<Rightarrow> jsstring" where
  "strip_one_leading cls s = (if s \<noteq> [] \<and> cls (hd s) then tl s else s)"

definition spec_toValidPackageName :: "(jsstring \<Rightarrow> jsstring) \<Rightarrow> jsstring \<Rightarrow> jsstring" where
  "spec_toValidPackageName toLowerCase name =
     each_run_to_hyphen not_name_first
       (strip_one_leading is_dot_or_underscore
         (each_run_to_hyphen is_space
           (toLowerCase (trim name))))"

text \<open>
  Removing all trailing code units of a class, and the postcondition that the
  specification gives for \<open>formatTargetDir\<close>.
\<close>

definition drop_trailing :: "(u16 \<Rightarrow> bool) \<Rightarrow> jsstring \<Rightarrow> jsstring" where
  "drop_trailing cls s = rev (dropWhile cls (rev s))"

definition clean_ends :: "jsstring \<Rightarrow> bool" where
  "clean_ends r =
     (r = [] \<or> (\<not> is_space (hd r) \<and> \<not> is_space (last r) \<and> \<not> is_slash (last r)))"

section \<open>Template catalog\<close>

text \<open>
  Everything the program throws or is handed as an error: a failed request of the
  catalog service (with its HTTP status), the cancellation raised inside the prompt flow,
  the errors of the file system calls, the missing template, a failed clone, and the two
  errors that parsing and updating the package descriptor can raise.
\<close>

datatype error =
    RequestError nat
  | OperationCancelled
  | ENOENT
  | ENOTDIR
  | EISDIR
  | TemplateNotAvailable
  | CloneError
  | SyntaxError
  | TypeError

record ITemplate =
  name :: jsstring
  description :: "jsstring option"
  clone_url :: jsstring

record search_response =
  items :: "ITemplate list"
  total_count :: nat

text \<open>
  The client \<open>new Octokit()\<close> comes from the package \<open>octokit\<close>, which the repository does
  not contain. A call of \<open>octokit.request\<close> sends the request to the service and, when the
  answer is an error, sends it again as the retry policy of the client says; the call
  returns the first response, or throws the error of the last request it sent. A policy is
  the number of times a call may send again, and the decision whether to send again, taken
  from the error and the number of times the call has sent again so far.

  \<open>service i\<close> is the answer of the service to the request number \<open>i\<close> that reaches it in
  the run. \<open>attempt c service i a\<close> is a call that is about to send request number \<open>i\<close>
  after it has sent again \<open>a\<close> times: its outcome, and the number of the next request.
\<close>

record client =
  max_resends :: nat
  resends :: "error \<Rightarrow> nat \<Rightarrow> bool"

function attempt ::
  "client \<Rightarrow> (nat \<Rightarrow> error + search_response) \<Rightarrow> nat \<Rightarrow> nat \<Rightarrow>
   (error + search_response) \<times> nat" where
  "attempt c service i a =
     (case service i of
        Inr response \<Rightarrow> (Inr response, Suc i)
      | Inl e \<Rightarrow>
          if a < max_resends c \<and> resends c e a then attempt c service (Suc i) (Suc a)
          else (Inl e, Suc i))"
  by pat_completeness auto
termination
  by (relation "measure (\<lambda>(c, service, i, a). max_resends c - a)") auto

declare attempt.simps [simp del]

definition octokit_request ::
  "client \<Rightarrow> (nat \<Rightarrow> error + search_response) \<Rightarrow> nat \<Rightarrow> (error + search_response) \<times> nat" where
  "octokit_request c service i = attempt c service i 0"

text \<open>
  The calls of a run follow each other: \<open>call_start c service n\<close> is the number of the first
  request of call number \<open>n\<close>, and \<open>call_outcome c service n\<close> is what that call returns or
  throws.
\<close>

fun call_start :: "client \<Rightarrow> (nat \<Rightarrow> error + search_response) \<Rightarrow> nat \<Rightarrow> nat" where
  "call_start c service 0 = 0"
| "call_start c service (Suc n) = snd (octokit_request c service (call_start c service n))"

definition call_outcome ::
  "client \<Rightarrow> (nat \<Rightarrow> error + search_response) \<Rightarrow> nat \<Rightarrow> error + search_response" where
  "call_outcome c service n = fst (octokit_request c service (call_start c service n))"

text \<open>
  \<open>fetchTemplateRepositories\<close>: the \<open>while (hasMore)\<close> loop. Every call has the same
  parameters; \<open>request n\<close> is the outcome of call number \<open>n\<close> of \<open>octokit.request\<close>, the
  response it returns or the error it throws. The loop need not end, so the result is an
  option and \<open>None\<close> stands for a run that never returns.
\<close>

partial_function (option) fetch_loop ::
  "(nat \<Rightarrow> error + search_response) \<Rightarrow> nat \<Rightarrow> ITemplate list \<Rightarrow> (error + ITemplate list) option"
where
  "fetch_loop request n templates =
     (case request n of
        Inl e \<Rightarrow> Some (Inl e)
      | Inr response \<Rightarrow>
          (let templates' = templates @ items response
           in if length templates' < total_count response
              then fetch_loop request (Suc n) templates'
              else Some (Inr templates')))"

declare fetch_loop.simps [code]

definition fetchTemplateRepositories ::
  "(nat \<Rightarrow> error + search_response) \<Rightarrow> (error + ITemplate list) option" where
  "fetchTemplateRepositories request = fetch_loop request 0 []"





section \<open>File system and paths\<close>

text \<open>
  The file system is an association list from absolute paths, given as lists of segments,
  to nodes; the first entry of a path counts. It holds directories and regular files, no
  links, and the root directory \<open>[]\<close> is always there. The calls of \<open>node:fs\<close> that the
  program makes return the error they throw as a value.
\<close>

datatype node = File jsstring | Dir

type_synonym path = "jsstring list"
type_synonym filesystem = "(path \<times> node) list"

definition existsSync :: "filesystem \<Rightarrow> path \<Rightarrow> bool" where
  "existsSync fs p = (map_of fs p \<noteq> None)"

definition readdirSync :: "filesystem \<Rightarrow> path \<Rightarrow> error + jsstring list" where
  "readdirSync fs p =
     (case (if p = [] then Some Dir else map_of fs p) of
        None \<Rightarrow> Inl ENOENT
      | Some (File text) \<Rightarrow> Inl ENOTDIR
      | Some Dir \<Rightarrow>
          Inr (remdups (map last (filter (\<lambda>q. q \<noteq> [] \<and> butlast q = p) (map fst fs)))))"

definition readFileSync :: "filesystem \<Rightarrow> path \<Rightarrow> error + jsstring" where
  "readFileSync fs p =
     (case map_of fs p of
        None \<Rightarrow> Inl ENOENT
      | Some Dir \<Rightarrow> Inl EISDIR
      | Some (File text) \<Rightarrow> Inr text)"

text \<open>
  \<open>writeFileSync\<close> replaces or creates the file; the program calls it only on a path that it
  has read before, so a missing parent directory does not occur.
\<close>

definition writeFileSync :: "filesystem \<Rightarrow> path \<Rightarrow> jsstring \<Rightarrow> error + filesystem" where
  "writeFileSync fs p text =
     (case map_of fs p of
        Some Dir \<Rightarrow> Inl EISDIR
      | _ \<Rightarrow> Inr ((p, File text) # filter (\<lambda>(q, n). q \<noteq> p) fs))"

text \<open>\<open>rmSync(p, { recursive: true, force: true })\<close> and \<open>rmSync(p, { force: true })\<close>.\<close>

definition rmSync_recursive :: "filesystem \<Rightarrow> path \<Rightarrow> filesystem" where
  "rmSync_recursive fs p = filter (\<lambda>(q, n). take (length p) q \<noteq> p) fs"

definition rmSync_force :: "filesystem \<Rightarrow> path \<Rightarrow> error + filesystem" where
  "rmSync_force fs p =
     (case map_of fs p of
        Some Dir \<Rightarrow> Inl EISDIR
      | _ \<Rightarrow> Inr (filter (\<lambda>(q, n). q \<noteq> p) fs))"

text \<open>
  \<open>path.join(dir, s)\<close> works on the text alone: it walks the segments of \<open>s\<close> from \<open>dir\<close>,
  where \<open>.\<close> stays and \<open>..\<close> drops the last segment.
\<close>

fun split_slash :: "jsstring \<Rightarrow> jsstring list" where
  "split_slash [] = [] # []"
| "split_slash (c # cs) =
     (if is_slash c then [] # split_slash cs
      else (case split_slash cs of [] \<Rightarrow> [c] # [] | x # xs \<Rightarrow> (c # x) # xs))"

definition walk :: "path \<Rightarrow> jsstring \<Rightarrow> path" where
  "walk p segment =
     (if segment = [] \<or> segment = js ''.'' then p
      else if segment = js ''..'' then butlast p
      else p @ [segment])"

definition path_join :: "path \<Rightarrow> jsstring \<Rightarrow> path" where
  "path_join dir s = foldl walk dir (split_slash s)"

definition path_basename :: "path \<Rightarrow> jsstring" where
  "path_basename p = (if p = [] then [] else last p)"

text \<open>
  A path string handed to \<open>node:fs\<close> as it is goes to the operating system, which resolves
  it segment by segment against the file system: from the root when the string starts with
  \<open>/\<close>, else from the working directory \<open>dir\<close>. Every segment, \<open>.\<close> and \<open>..\<close> too, needs
  the place reached so far to be a directory; otherwise the path does not resolve. So
  \<open>x/../p\<close> resolves to \<open>p\<close> only when \<open>x\<close> is a directory.
\<close>

definition is_directory :: "filesystem \<Rightarrow> path \<Rightarrow> bool" where
  "is_directory fs p = (p = [] \<or> map_of fs p = Some Dir)"

definition enter :: "filesystem \<Rightarrow> path option \<Rightarrow> jsstring \<Rightarrow> path option" where
  "enter fs place segment =
     (case place of
        None \<Rightarrow> None
      | Some p \<Rightarrow>
          if segment = [] then Some p
          else if \<not> is_directory fs p then None
          else if segment = js ''.'' then Some p
          else if segment = js ''..'' then Some (butlast p)
          else Some (p @ [segment]))"

definition resolve :: "filesystem \<Rightarrow> path \<Rightarrow> jsstring \<Rightarrow> path option" where
  "resolve fs dir s =
     (if s = [] then None
      else foldl (enter fs) (Some (if is_slash (hd s) then [] else dir)) (split_slash s))"

text \<open>\<open>fs.existsSync(s)\<close> and \<open>fs.readdirSync(s)\<close> on a path string, and \<open>isEmpty(s)\<close>.\<close>

definition existsSync_at :: "filesystem \<Rightarrow> path \<Rightarrow> jsstring \<Rightarrow> bool" where
  "existsSync_at fs dir s =
     (case resolve fs dir s of
        None \<Rightarrow> False
      | Some p \<Rightarrow> p = [] \<or> existsSync fs p)"

definition readdirSync_at :: "filesystem \<Rightarrow> path \<Rightarrow> jsstring \<Rightarrow> error + jsstring list" where
  "readdirSync_at fs dir s =
     (case resolve fs dir s of
        None \<Rightarrow> Inl ENOENT
      | Some p \<Rightarrow> readdirSync fs p)"

definition isEmpty :: "filesystem \<Rightarrow> path \<Rightarrow> jsstring \<Rightarrow> error + bool" where
  "isEmpty fs dir s =
     (case readdirSync_at fs dir s of
        Inl e \<Rightarrow> Inl e
      | Inr files \<Rightarrow>
          Inr (length files = 0 \<or> (length files = 1 \<and> files ! 0 = js ''.git'')))"

section \<open>Package descriptor\<close>

text \<open>
  A parsed JSON text. An object lists its properties in the order in which the program
  enumerates them; a number is kept as the text that serialization writes for it.
\<close>

datatype json =
    JNull
  | JBool bool
  | JNumber jsstring
  | JString jsstring
  | JArray "json list"
  | JObject "(jsstring \<times> json) list"

text \<open>
  \<open>pkg[key] = v\<close> in strict mode: an existing property keeps its place, a new one goes to
  the end; a property put on an array is not an element and serialization does not see
  it; \<open>null\<close> and the primitive values raise a \<open>TypeError\<close>.
\<close>

fun assign :: "(jsstring \<times> json) list \<Rightarrow> jsstring \<Rightarrow> json \<Rightarrow> (jsstring \<times> json) list" where
  "assign [] key v = [(key, v)]"
| "assign ((k, old) # kvs) key v =
     (if k = key then (key, v) # kvs else (k, old) # assign kvs key v)"

fun set_property :: "json \<Rightarrow> jsstring \<Rightarrow> json \<Rightarrow> error + json" where
  "set_property (JObject kvs) key v = Inr (JObject (assign kvs key v))"
| "set_property (JArray xs) key v = Inr (JArray xs)"
| "set_property JNull key v = Inl TypeError"
| "set_property (JBool b) key v = Inl TypeError"
| "set_property (JNumber n) key v = Inl TypeError"
| "set_property (JString s) key v = Inl TypeError"

text \<open>
  \<open>JSON.stringify(value, null, gap)\<close> for a number \<open>gap\<close> of spaces. A string is quoted with
  the escapes of ECMAScript: the two-character escapes, \<open>\u00xx\<close> for the other control
  characters and \<open>\udxxx\<close> for a surrogate without its partner.
\<close>

definition newline :: jsstring where
  "newline = [0xA]"

definition hex_digit :: "u16 \<Rightarrow> u16" where
  "hex_digit d = (if d < 10 then code CHR ''0'' + d else code CHR ''a'' + (d - 10))"

definition unicode_escape :: "u16 \<Rightarrow> jsstring" where
  "unicode_escape c =
     [0x5C, code CHR ''u''] @
     map hex_digit
       [drop_bit 12 c, take_bit 4 (drop_bit 8 c), take_bit 4 (drop_bit 4 c), take_bit 4 c]"

definition quote_unit :: "u16 \<Rightarrow> jsstring" where
  "quote_unit c =
     (if c = 0x8 then [0x5C, code CHR ''b'']
      else if c = 0x9 then [0x5C, code CHR ''t'']
      else if c = 0xA then [0x5C, code CHR ''n'']
      else if c = 0xC then [0x5C, code CHR ''f'']
      else if c = 0xD then [0x5C, code CHR ''r'']
      else if c = 0x22 then [0x5C, 0x22]
      else if c = 0x5C then [0x5C, 0x5C]
      else if c < 0x20 then unicode_escape c
      else [c])"

definition is_high_surrogate :: "u16 \<Rightarrow> bool" where
  "is_high_surrogate c = (0xD800 \<le> c \<and> c \<le> 0xDBFF)"

definition is_low_surrogate :: "u16 \<Rightarrow> bool" where
  "is_low_surrogate c = (0xDC00 \<le> c \<and> c \<le> 0xDFFF)"

fun quote_units :: "jsstring \<Rightarrow> jsstring" where
  "quote_units [] = []"
| "quote_units [c] =
     (if is_high_surrogate c \<or> is_low_surrogate c then unicode_escape c else quote_unit c)"
| "quote_units (c # d # cs) =
     (if is_high_surrogate c \<and> is_low_surrogate d then c # d # quote_units cs
      else if is_high_surrogate c \<or> is_low_surrogate c
        then unicode_escape c @ quote_units (d # cs)
      else quote_unit c @ quote_units (d # cs))"

definition quote :: "jsstring \<Rightarrow> jsstring" where
  "quote s = [0x22] @ quote_units s @ [0x22]"

definition indentation :: "nat \<Rightarrow> nat \<Rightarrow> jsstring" where
  "indentation gap depth = replicate (gap * depth) (code CHR '' '')"

fun join_with :: "jsstring \<Rightarrow> jsstring list \<Rightarrow> jsstring" where
  "join_with sep [] = []"
| "join_with sep [x] = x"
| "join_with sep (x # y # ys) = x @ sep @ join_with sep (y # ys)"

fun serialize :: "nat \<Rightarrow> nat \<Rightarrow> json \<Rightarrow> jsstring" where
  "serialize gap depth JNull = js ''null''"
| "serialize gap depth (JBool b) = (if b then js ''true'' else js ''false'')"
| "serialize gap depth (JNumber text) = text"
| "serialize gap depth (JString s) = quote s"
| "serialize gap depth (JArray xs) =
     (if xs = [] then js ''[]''
      else js ''['' @ newline @
        join_with (js '','' @ newline)
          (map (\<lambda>x. indentation gap (Suc depth) @ serialize gap (Suc depth) x) xs) @
        newline @ indentation gap depth @ js '']'')"
| "serialize gap depth (JObject kvs) =
     (if kvs = [] then js ''{}''
      else js ''{'' @ newline @
        join_with (js '','' @ newline)
          (map (\<lambda>kv. indentation gap (Suc depth) @ quote (fst kv) @ js '': '' @
                    serialize gap (Suc depth) (snd kv)) kvs) @
        newline @ indentation gap depth @ js ''}'')"

definition JSON_stringify :: "json \<Rightarrow> nat \<Rightarrow> jsstring" where
  "JSON_stringify v gap = serialize gap 0 v"

section \<open>The run of the program\<close>

text \<open>
  The functions of the host that the repository does not contain: \<open>toLowerCase\<close> of strings
  and \<open>JSON.parse\<close>, which returns the parsed value or raises a \<open>SyntaxError\<close>.
\<close>

record host =
  host_toLowerCase :: "jsstring \<Rightarrow> jsstring"
  host_JSON_parse :: "jsstring \<Rightarrow> error + json"

text \<open>
  What a run meets: the command line as \<open>minimist\<close> parses it, the working directory, the
  file system, the retry policy of the client and the answers of the catalog service, what
  the user does at each prompt, and what \<open>git clone\<close> does to the file system.

  The prompt library is not part of the repository. Of a text prompt the run sees the
  values passed to \<open>onState\<close> while the user types and then the submitted value, which is
  passed to \<open>onState\<close> as well; the user can abort any prompt instead. At the package name
  prompt an empty input stands for the initial value and the prompt asks again until the
  value is valid; the inputs are listed in \<open>packageName_typed\<close> and the prompt is aborted when
  none of them is valid. The selection shows one choice for each template of the catalog
  and delivers the template of the choice that the user submits; \<open>template_reply\<close> is the
  position of that choice. The cursor is always on one of the choices, so a position behind
  the last choice stands for no submission and counts as an abort; with no choice at all
  the selection cannot be drawn, and the library ends the flow through \<open>onCancel\<close> as well.
\<close>

record arguments =
  positional :: "jsstring list"
  flag_template :: "jsstring option"
  flag_t :: "jsstring option"

datatype 'a reply = Aborted | Answered 'a

record world =
  argv :: arguments
  cwd :: path
  files :: filesystem
  octokit :: client
  service :: "nat \<Rightarrow> error + search_response"
  projectName_states :: "jsstring list"
  projectName_reply :: "jsstring reply"
  overwrite_reply :: "bool reply"
  packageName_typed :: "jsstring list"
  template_reply :: "nat reply"
  git_clone :: "jsstring \<Rightarrow> jsstring \<Rightarrow> filesystem \<Rightarrow> error option \<times> filesystem"

text \<open>The answers of the prompt flow, with the variable \<open>targetDir\<close> as the flow leaves it.\<close>

record answers =
  targetDir :: jsstring
  overwrite :: "bool option"
  packageName :: "jsstring option"
  template :: "ITemplate option"

text \<open>
  What a run leaves: the lines on the console, the file system, and the error with which
  \<open>init\<close> is left when it does not return normally.
\<close>

datatype console_line =
    Log_message error
  | Log_cloning path
  | Log_error error
  | Log_done

record run =
  console :: "console_line list"
  files_after :: filesystem
  thrown :: "error option"

text \<open>
  Truthiness and \<open>a || b\<close> on values that can be \<open>undefined\<close>: the empty string and
  \<open>false\<close> are falsy.
\<close>

definition truthy :: "jsstring option \<Rightarrow> bool" where
  "truthy v = (case v of None \<Rightarrow> False | Some s \<Rightarrow> s \<noteq> [])"

definition truthy_bool :: "bool option \<Rightarrow> bool" where
  "truthy_bool v = (case v of None \<Rightarrow> False | Some b \<Rightarrow> b)"

definition or_string :: "jsstring option \<Rightarrow> jsstring \<Rightarrow> jsstring" where
  "or_string v d = (case v of None \<Rightarrow> d | Some s \<Rightarrow> if s = [] then d else s)"

definition or_option :: "jsstring option \<Rightarrow> jsstring option \<Rightarrow> jsstring option" where
  "or_option v d = (if truthy v then v else d)"

definition defaultTargetDir :: jsstring where
  "defaultTargetDir = js ''my-project''"

definition getProjectName :: "path \<Rightarrow> jsstring \<Rightarrow> jsstring" where
  "getProjectName dir td = (if td = js ''.'' then path_basename dir else td)"

text \<open>The constants that \<open>init\<close> computes from the command line and the catalog.\<close>

definition argTargetDir :: "world \<Rightarrow> jsstring option" where
  "argTargetDir w =
     formatTargetDir (case positional (argv w) of [] \<Rightarrow> None | a # rest \<Rightarrow> Some a)"

definition argTemplate :: "world \<Rightarrow> jsstring option" where
  "argTemplate w = or_option (flag_template (argv w)) (flag_t (argv w))"

definition isValidTemplate :: "world \<Rightarrow> ITemplate list \<Rightarrow> bool" where
  "isValidTemplate w repoTemplates =
     (truthy (argTemplate w) \<and>
      list_ex (\<lambda>t. Some (name t) = argTemplate w) repoTemplates)"

text \<open>The five questions of the prompt flow, in their order.\<close>

definition onState :: "jsstring \<Rightarrow> jsstring" where
  "onState v = or_string (formatTargetDir (Some v)) defaultTargetDir"

definition ask_projectName :: "world \<Rightarrow> jsstring \<Rightarrow> error + jsstring" where
  "ask_projectName w td =
     (case projectName_reply w of
        Aborted \<Rightarrow> Inl OperationCancelled
      | Answered v \<Rightarrow> Inr (foldl (\<lambda>current v. onState v) td (projectName_states w @ [v])))"

definition ask_overwrite :: "world \<Rightarrow> jsstring \<Rightarrow> error + bool option" where
  "ask_overwrite w td =
     (if \<not> existsSync_at (files w) (cwd w) td then Inr None
      else (case isEmpty (files w) (cwd w) td of
              Inl e \<Rightarrow> Inl e
            | Inr nothing \<Rightarrow>
                if nothing then Inr None
                else (case overwrite_reply w of
                        Aborted \<Rightarrow> Inl OperationCancelled
                      | Answered b \<Rightarrow> Inr (Some b))))"

definition overwriteChecker :: "bool option \<Rightarrow> error + unit" where
  "overwriteChecker ow = (if ow = Some False then Inl OperationCancelled else Inr ())"

definition ask_packageName :: "host \<Rightarrow> world \<Rightarrow> jsstring \<Rightarrow> error + jsstring option" where
  "ask_packageName h w td =
     (if isValidPackageName (getProjectName (cwd w) td) then Inr None
      else (let initial = toValidPackageName (host_toLowerCase h) (getProjectName (cwd w) td)
            in case find isValidPackageName
                      (map (\<lambda>typed. if typed = [] then initial else typed)
                         (packageName_typed w)) of
                 None \<Rightarrow> Inl OperationCancelled
               | Some v \<Rightarrow> Inr (Some v)))"

definition ask_template :: "world \<Rightarrow> ITemplate list \<Rightarrow> error + ITemplate option" where
  "ask_template w repoTemplates =
     (if isValidTemplate w repoTemplates then Inr None
      else (case template_reply w of
              Aborted \<Rightarrow> Inl OperationCancelled
            | Answered i \<Rightarrow>
                if i < length repoTemplates then Inr (Some (repoTemplates ! i))
                else Inl OperationCancelled))"

definition prompt_flow :: "host \<Rightarrow> world \<Rightarrow> ITemplate list \<Rightarrow> error + answers" where
  "prompt_flow h w repoTemplates =
     (case ask_projectName w (or_string (argTargetDir w) defaultTargetDir) of
        Inl e \<Rightarrow> Inl e
      | Inr td \<Rightarrow>
     (case ask_overwrite w td of
        Inl e \<Rightarrow> Inl e
      | Inr ow \<Rightarrow>
     (case overwriteChecker ow of
        Inl e \<Rightarrow> Inl e
      | Inr u \<Rightarrow>
     (case ask_packageName h w td of
        Inl e \<Rightarrow> Inl e
      | Inr pn \<Rightarrow>
     (case ask_template w repoTemplates of
        Inl e \<Rightarrow> Inl e
      | Inr tp \<Rightarrow>
          Inr \<lparr>targetDir = td, overwrite = ow, packageName = pn, template = tp\<rparr>)))))"

text \<open>
  The callback of \<open>childProcess.exec\<close> after a clone without error: the package descriptor
  is renamed when it exists, then the repository data and the lock files are removed. An
  error raised on the way leaves the file system as it is at that point.
\<close>

definition rename_package ::
  "host \<Rightarrow> path \<Rightarrow> jsstring option \<Rightarrow> jsstring \<Rightarrow> filesystem \<Rightarrow> error option \<times> filesystem" where
  "rename_package h root pn projectName fs =
     (let pkgDir = root @ [js ''package.json'']
      in if existsSync fs pkgDir then
           (case readFileSync fs pkgDir of
              Inl e \<Rightarrow> (Some e, fs)
            | Inr text \<Rightarrow>
           (case host_JSON_parse h text of
              Inl e \<Rightarrow> (Some e, fs)
            | Inr pkg \<Rightarrow>
           (case set_property pkg (js ''name'') (JString (or_string pn projectName)) of
              Inl e \<Rightarrow> (Some e, fs)
            | Inr pkg' \<Rightarrow>
           (case writeFileSync fs pkgDir (JSON_stringify pkg' 2 @ newline) of
              Inl e \<Rightarrow> (Some e, fs)
            | Inr fs' \<Rightarrow> (None, fs')))))
         else (None, fs))"

definition clean :: "path \<Rightarrow> filesystem \<Rightarrow> error option \<times> filesystem" where
  "clean root fs =
     (let fs1 = rmSync_recursive fs (root @ [js ''.git''])
      in case rmSync_force fs1 (root @ [js ''package-lock.json'']) of
           Inl e \<Rightarrow> (Some e, fs1)
         | Inr fs2 \<Rightarrow>
             (case rmSync_force fs2 (root @ [js ''yarn.lock'']) of
                Inl e \<Rightarrow> (Some e, fs2)
              | Inr fs3 \<Rightarrow> (None, fs3)))"

definition clone_callback ::
  "host \<Rightarrow> path \<Rightarrow> jsstring option \<Rightarrow> jsstring \<Rightarrow> filesystem \<Rightarrow>
   console_line list \<times> filesystem \<times> error option" where
  "clone_callback h root pn projectName fs =
     (case rename_package h root pn projectName fs of
        (Some e, fs1) \<Rightarrow> ([], fs1, Some e)
      | (None, fs1) \<Rightarrow>
          (case clean root fs1 of
             (Some e, fs2) \<Rightarrow> ([], fs2, Some e)
           | (None, fs2) \<Rightarrow> ([Log_done], fs2, None)))"


text \<open>
  \<open>init\<close> behind the prompt flow (\<open>scaffold\<close>): the target directory is removed, the
  template is looked up, and the clone and its callback follow. In \<open>init\<close> itself an error
  of the catalog leaves \<open>init\<close> as it is, and an error raised inside the prompt flow is
  caught and its message printed.
\<close>

definition remove_existing :: "world \<Rightarrow> answers \<Rightarrow> filesystem" where
  "remove_existing w result =
     (let root = path_join (cwd w) (targetDir result)
      in if (\<not> truthy_bool (overwrite result) \<or> overwrite result = Some True) \<and>
            existsSync (files w) root
         then rmSync_recursive (files w) root
         else files w)"

definition selectedTemplete :: "world \<Rightarrow> ITemplate list \<Rightarrow> answers \<Rightarrow> ITemplate option" where
  "selectedTemplete w repoTemplates result =
     (case template result of
        Some chosen \<Rightarrow> Some chosen
      | None \<Rightarrow> find (\<lambda>t. Some (name t) = argTemplate w) repoTemplates)"

definition scaffold :: "host \<Rightarrow> world \<Rightarrow> ITemplate list \<Rightarrow> answers \<Rightarrow> run" where
  "scaffold h w repoTemplates result =
     (let root = path_join (cwd w) (targetDir result);
          fs1 = remove_existing w result
      in case selectedTemplete w repoTemplates result of
           None \<Rightarrow> \<lparr>console = [], files_after = fs1, thrown = Some TemplateNotAvailable\<rparr>
         | Some selected \<Rightarrow>
             (case git_clone w (clone_url selected) (targetDir result) fs1 of
                (Some e, fs2) \<Rightarrow>
                  \<lparr>console = [Log_cloning root, Log_error e], files_after = fs2, thrown = None\<rparr>
              | (None, fs2) \<Rightarrow>
                  (case clone_callback h root (packageName result)
                          (getProjectName (cwd w) (targetDir result)) fs2 of
                     (out, fs3, err) \<Rightarrow>
                       \<lparr>console = Log_cloning root # out, files_after = fs3, thrown = err\<rparr>)))"

definition init :: "host \<Rightarrow> world \<Rightarrow> run option" where
  "init h w =
     (case fetchTemplateRepositories (call_outcome (octokit w) (service w)) of
        None \<Rightarrow> None
      | Some (Inl e) \<Rightarrow> Some \<lparr>console = [], files_after = files w, thrown = Some e\<rparr>
      | Some (Inr repoTemplates) \<Rightarrow>
          (case prompt_flow h w repoTemplates of
             Inl e \<Rightarrow>
               Some \<lparr>console = [Log_message e], files_after = files w, thrown = None\<rparr>
           | Inr result \<Rightarrow> Some (scaffold h w repoTemplates result)))"

section \<open>Example runs\<close>

text \<open>
  A catalog with the one template \<open>t1\<close>, whose clone holds a package descriptor, the
  repository data and a lock file; a working directory \<open>/home\<close> in which \<open>my-project\<close>
  exists and holds a file. The user accepts the default project name. The client sends a
  request again, up to three times, when the service answers with a server error, as the
  default client of the package \<open>octokit\<close> does.
\<close>

definition example_client :: client where
  "example_client =
     \<lparr>max_resends = 3,
      resends = (\<lambda>e a. case e of RequestError status \<Rightarrow> 500 \<le> status | _ \<Rightarrow> False)\<rparr>"

definition example_template :: ITemplate where
  "example_template =
     \<lparr>name = js ''t1'', description = None, clone_url = js ''https://example.org/t1.git''\<rparr>"

definition example_descriptor :: json where
  "example_descriptor =
     JObject [(js ''name'', JString (js ''template-default'')),
              (js ''version'', JString (js ''1.0.0''))]"

definition example_host :: host where
  "example_host =
     \<lparr>host_toLowerCase = toLowerCase_ascii,
      host_JSON_parse =
        (\<lambda>text. if text = js ''descriptor of t1'' then Inr example_descriptor
                else Inl SyntaxError)\<rparr>"

definition example_clone :: "jsstring \<Rightarrow> jsstring \<Rightarrow> filesystem \<Rightarrow> error option \<times> filesystem" where
  "example_clone url dir fs =
     (None,
      [([js ''home'', dir], Dir),
       ([js ''home'', dir, js ''.git''], Dir),
       ([js ''home'', dir, js ''.git'', js ''HEAD''], File (js ''ref'')),
       ([js ''home'', dir, js ''package.json''], File (js ''descriptor of t1'')),
       ([js ''home'', dir, js ''yarn.lock''], File (js ''lock''))] @ fs)"

definition example_world :: world where
  "example_world =
     \<lparr>argv = \<lparr>positional = [js ''foo''], flag_template = Some (js ''t1''), flag_t = None\<rparr>,
      cwd = [js ''home''],
      files =
        [([js ''home''], Dir),
         ([js ''home'', js ''my-project''], Dir),
         ([js ''home'', js ''my-project'', js ''notes.txt''], File (js ''keep''))],
      octokit = example_client,
      service = (\<lambda>n. Inr \<lparr>items = [example_template], total_count = 1\<rparr>),
      projectName_states = [js ''m'', js ''my''],
      projectName_reply = Answered (js ''my-project''),
      overwrite_reply = Answered True,
      packageName_typed = [],
      template_reply = Answered 0,
      git_clone = example_clone\<rparr>"

section \<open>Properties of the name normalizer\<close>

lemma code_simps:
  "code CHR ''A'' = 0x41" "code CHR ''Z'' = 0x5A" "code CHR ''a'' = 0x61" "code CHR ''z'' = 0x7A"
  "code CHR ''0'' = 0x30" "code CHR ''9'' = 0x39" "code CHR ''-'' = 0x2D" "code CHR ''~'' = 0x7E"
  "code CHR ''.'' = 0x2E" "code CHR ''_'' = 0x5F" "code CHR ''*'' = 0x2A" "code CHR ''@'' = 0x40"
  "code CHR ''/'' = 0x2F"
  by (simp_all add: code_def)

lemma name_first_cases:
  "name_first c \<Longrightarrow> (0x61 \<le> c \<and> c \<le> 0x7A) \<or> (0x30 \<le> c \<and> c \<le> 0x39) \<or> c = 0x2D \<or> c = 0x7E"
  by (simp add: name_first_def is_az_def is_digit_def code_simps)

lemma name_first_unat:
  "name_first c \<Longrightarrow> unat c \<in> {0x61..0x7A} \<union> {0x30..0x39} \<union> {0x2D, 0x7E}"
  by (auto dest!: name_first_cases simp: word_le_nat_alt)

lemma name_first_not_space: "name_first c \<Longrightarrow> \<not> is_space c"
  by (drule name_first_unat) (auto simp: is_space_def word_le_nat_alt)

lemma name_first_ascii: "name_first c \<Longrightarrow> is_ascii c"
  by (drule name_first_unat) (auto simp: is_ascii_def word_less_nat_alt)

lemma name_first_lower: "name_first c \<Longrightarrow> ascii_lower c = c"
  by (drule name_first_unat) (auto simp: ascii_lower_def code_simps word_le_nat_alt)

lemma name_first_not_dot: "name_first c \<Longrightarrow> \<not> is_dot_or_underscore c"
  by (drule name_first_unat) (auto simp: is_dot_or_underscore_def code_simps)

lemma name_first_rest: "name_first c \<Longrightarrow> name_rest c"
  by (auto simp: name_first_def name_rest_def)

lemma name_first_not_at: "name_first c \<Longrightarrow> c \<noteq> code CHR ''@''"
  by (drule name_first_unat) (auto simp: code_simps)

lemma replace_plus_g_none: "list_all (\<lambda>c. \<not> cls c) s \<Longrightarrow> replace_plus_g cls rep s = s"
  by (induction s) auto

lemma replace_plus_g_class:
  "list_all (\<lambda>c. \<not> cls c) rep \<Longrightarrow> list_all (\<lambda>c. \<not> cls c) (replace_plus_g cls rep s)"
  by (induction cls rep s rule: replace_plus_g.induct) auto

lemma trim_none: "list_all (\<lambda>c. \<not> is_space c) s \<Longrightarrow> trim s = s"
proof (cases s rule: rev_cases)
  case Nil
  then show ?thesis by (simp add: trim_def)
next
  case (snoc ys y)
  assume a: "list_all (\<lambda>c. \<not> is_space c) s"
  then have "dropWhile is_space s = s"
    by (cases s) auto
  moreover from a snoc have "dropWhile is_space (rev s) = rev s"
    by simp
  ultimately show ?thesis by (simp add: trim_def)
qed

lemma toValidPackageName_chars: "list_all name_first (toValidPackageName lc s)"
proof -
  have "list_all (\<lambda>c. \<not> not_name_first c) hyphen"
    by (simp add: hyphen_def js_def not_name_first_def name_first_def)
  then have "list_all (\<lambda>c. \<not> not_name_first c) (toValidPackageName lc s)"
    unfolding toValidPackageName_def by (rule replace_plus_g_class)
  then show ?thesis by (simp add: not_name_first_def)
qed

lemma toValidPackageName_fixed:
  assumes lc: "lowercases_ascii lc" and t: "list_all name_first t"
  shows "toValidPackageName lc t = t"
proof -
  from t have 1: "trim t = t"
    by (intro trim_none) (auto simp: list_all_iff name_first_not_space)
  from t have "list_all is_ascii t"
    by (auto simp: list_all_iff name_first_ascii)
  with lc have "lc t = map ascii_lower t"
    by (simp add: lowercases_ascii_def)
  also from t have "\<dots> = t"
    by (induction t) (auto simp: name_first_lower)
  finally have 2: "lc t = t" .
  from t have 3: "replace_plus_g is_space hyphen t = t"
    by (intro replace_plus_g_none) (auto simp: list_all_iff name_first_not_space)
  from t have 4: "replace_at_start is_dot_or_underscore [] t = t"
    by (cases t) (auto simp: name_first_not_dot)
  from t have 5: "replace_plus_g not_name_first hyphen t = t"
    by (intro replace_plus_g_none) (auto simp: list_all_iff not_name_first_def)
  show ?thesis
    by (simp add: toValidPackageName_def 1 2 3 4 5)
qed

lemma star_remainders_all: "list_all cls s \<Longrightarrow> [] \<in> set (star_remainders cls s)"
  by (induction s) auto

lemma valid_of_chars:
  assumes "s \<noteq> []" and "list_all name_first s"
  shows "isValidPackageName s"
proof -
  from assms obtain c cs where s: "s = c # cs" and c: "name_first c" and cs: "list_all name_first cs"
    by (cases s) auto
  from c have "c \<noteq> code CHR ''@''" by (rule name_first_not_at)
  then have "remainders (Opt (Seq (Cls (\<lambda>c. c = code CHR ''@''))
              (Seq (Cls scope_first) (Seq (StarCls scope_rest) (Cls is_slash))))) s = [s]"
    by (simp add: s)
  moreover from cs have "list_all name_rest cs"
    by (auto simp: list_all_iff name_first_rest)
  then have "[] \<in> set (star_remainders name_rest cs)" by (rule star_remainders_all)
  ultimately show ?thesis using c
    by (simp add: isValidPackageName_def test_anchored_def package_name_regex_def s list_ex_iff)
qed

lemma replace_plus_g_skip:
  "replace_plus_g cls rep s =
     takeWhile (\<lambda>d. \<not> cls d) s @ replace_plus_g cls rep (dropWhile (\<lambda>d. \<not> cls d) s)"
  by (induction s) auto

lemma replace_plus_g_runs: "replace_plus_g cls hyphen s = each_run_to_hyphen cls s"
proof (induction cls s rule: runs.induct)
  case (1 cls)
  show ?case by (simp add: each_run_to_hyphen_def)
next
  case (2 cls c cs)
  show ?case
  proof (cases "cls c")
    case True
    then have eq: "(\<lambda>d. cls d = cls c) = cls" by auto
    from True show ?thesis
      using "2.IH" by (simp add: each_run_to_hyphen_def eq)
  next
    case False
    then have eq: "(\<lambda>d. cls d = cls c) = (\<lambda>d. \<not> cls d)" by auto
    have "replace_plus_g cls hyphen (c # cs) = c # replace_plus_g cls hyphen cs"
      using False by simp
    also have "\<dots> = c # takeWhile (\<lambda>d. \<not> cls d) cs @
        replace_plus_g cls hyphen (dropWhile (\<lambda>d. \<not> cls d) cs)"
      using replace_plus_g_skip [of cls hyphen cs] by simp
    also have "\<dots> = each_run_to_hyphen cls (c # cs)"
      using False "2.IH" by (simp add: each_run_to_hyphen_def eq)
    finally show ?thesis .
  qed
qed

lemma replace_at_start_strip: "replace_at_start cls [] s = strip_one_leading cls s"
  by (cases s) (auto simp: strip_one_leading_def)

lemma replace_plus_at_end_drop: "replace_plus_at_end cls [] s = drop_trailing cls s"
proof (induction s)
  case Nil
  show ?case by (simp add: drop_trailing_def)
next
  case (Cons c cs)
  show ?case
  proof (cases "\<forall>x\<in>set cs. cls x")
    case True
    with Cons show ?thesis
      by (auto simp: drop_trailing_def dropWhile_append dropWhile_eq_Nil_conv)
  next
    case False
    with Cons show ?thesis
      by (auto simp: drop_trailing_def dropWhile_append dropWhile_eq_Nil_conv)
  qed
qed

lemma concat_runs: "concat (runs cls s) = s"
  by (induction cls s rule: runs.induct) simp_all

lemma drop_trailing_prefix: "\<exists>ys. s = drop_trailing cls s @ ys"
proof -
  have "rev (takeWhile cls (rev s) @ dropWhile cls (rev s)) = s"
    by (simp only: takeWhile_dropWhile_id rev_rev_ident)
  then have "s = drop_trailing cls s @ rev (takeWhile cls (rev s))"
    by (simp only: rev_append drop_trailing_def)
  then show ?thesis ..
qed

lemma drop_trailing_last: "drop_trailing cls s \<noteq> [] \<Longrightarrow> \<not> cls (last (drop_trailing cls s))"
  by (simp add: drop_trailing_def last_rev hd_dropWhile)

lemma drop_trailing_hd: "drop_trailing cls s \<noteq> [] \<Longrightarrow> hd (drop_trailing cls s) = hd s"
  using drop_trailing_prefix [of s cls] by (metis hd_append2)

lemma drop_trailing_nonempty: "drop_trailing cls s \<noteq> [] \<Longrightarrow> s \<noteq> []"
  by (auto simp: drop_trailing_def)

lemma drop_trailing_same: "s = [] \<or> \<not> cls (last s) \<Longrightarrow> drop_trailing cls s = s"
  by (cases s rule: rev_cases) (auto simp: drop_trailing_def)

lemma trim_drop: "trim s = drop_trailing is_space (dropWhile is_space s)"
  by (simp add: trim_def drop_trailing_def)

lemma trim_hd: "trim s \<noteq> [] \<Longrightarrow> \<not> is_space (hd (trim s))"
  unfolding trim_drop
  by (metis drop_trailing_hd drop_trailing_nonempty hd_dropWhile)

lemma trim_last: "trim s \<noteq> [] \<Longrightarrow> \<not> is_space (last (trim s))"
  unfolding trim_drop by (rule drop_trailing_last)

subsection \<open>Claims on the name normalizer\<close>

text \<open>
  C3, as the specification states it, fails: the result of \<open>formatTargetDir\<close> can end in
  whitespace. The input \<open>"a /"\<close> has no surrounding whitespace, so \<open>trim\<close> leaves it alone, and
  removing the trailing \<open>/\<close> uncovers the blank: the result is \<open>"a "\<close>.
\<close>

theorem formatTargetDir_trailing_space_counterexample:
  "formatTargetDir (Some (js ''a /'')) = Some (js ''a '') \<and> \<not> clean_ends (js ''a '')"
  by (simp add: formatTargetDir_def clean_ends_def js_def code_def trim_def is_space_def
      is_slash_def)

text \<open>
  C3, amended: \<open>formatTargetDir(undefined)\<close> is \<open>undefined\<close>; on a string the result is the
  trimmed input without the trailing \<open>/\<close> characters of the trimmed input. A non-empty
  result has no leading whitespace and no trailing \<open>/\<close>; it can end in whitespace only when
  the trimmed input ended in \<open>/\<close>. \<open>formatTargetDir("foo/ ")\<close> is \<open>"foo"\<close>.
\<close>

theorem formatTargetDir_trim_then_strip:
  "formatTargetDir None = None \<and>
   formatTargetDir (Some s) = Some (drop_trailing is_slash (trim s)) \<and>
   (let r = drop_trailing is_slash (trim s) in
      (r \<noteq> [] \<longrightarrow> \<not> is_space (hd r) \<and> \<not> is_slash (last r)) \<and>
      (r \<noteq> [] \<and> is_space (last r) \<longrightarrow> trim s \<noteq> [] \<and> is_slash (last (trim s)))) \<and>
   formatTargetDir (Some (js ''foo/ '')) = Some (js ''foo'')"
proof -
  define r where "r = drop_trailing is_slash (trim s)"
  have 1: "formatTargetDir (Some s) = Some r"
    by (simp add: formatTargetDir_def replace_plus_at_end_drop r_def)
  have 2: "\<not> is_space (hd r) \<and> \<not> is_slash (last r)" if "r \<noteq> []"
  proof -
    from that have "hd r = hd (trim s)" and "trim s \<noteq> []"
      unfolding r_def by (rule drop_trailing_hd, rule drop_trailing_nonempty)
    then have "\<not> is_space (hd r)" by (simp add: trim_hd)
    moreover from that have "\<not> is_slash (last r)"
      unfolding r_def by (rule drop_trailing_last)
    ultimately show ?thesis ..
  qed
  have 3: "trim s \<noteq> [] \<and> is_slash (last (trim s))" if "r \<noteq> []" and "is_space (last r)"
  proof (rule ccontr)
    assume "\<not> (trim s \<noteq> [] \<and> is_slash (last (trim s)))"
    then have "r = trim s"
      unfolding r_def by (intro drop_trailing_same) auto
    with that show False by (simp add: trim_last)
  qed
  have 4: "formatTargetDir (Some (js ''foo/ '')) = Some (js ''foo'')"
    by (simp add: formatTargetDir_def js_def code_def trim_def is_space_def is_slash_def)
  from 1 2 3 4 show ?thesis
    by (simp add: formatTargetDir_def Let_def r_def [symmetric])
qed

theorem formatTargetDir_trim_then_strip_witness:
  "formatTargetDir (Some (js '' a b// '')) = Some (js ''a b'') \<and>
   \<not> is_space (hd (js ''a b'')) \<and> \<not> is_slash (last (js ''a b'')) \<and>
   formatTargetDir (Some (js ''a /'')) = Some (js ''a '') \<and>
   is_space (last (js ''a '')) \<and> is_slash (last (trim (js ''a /'')))"
  using formatTargetDir_trim_then_strip [of "js '' a b// ''"]
    formatTargetDir_trim_then_strip [of "js ''a /''"]
  by (simp add: drop_trailing_def js_def code_def trim_def is_space_def is_slash_def)

text \<open>
  C6: \<open>toValidPackageName\<close> is a function of its argument alone (total and deterministic, as
  every function of the logic is), and it computes what the specification says: trim,
  lower-case, each run of whitespace to one hyphen, one leading dot or underscore removed,
  each run of code units outside \<open>[a-z0-9-~]\<close> to one hyphen. With a \<open>toLowerCase\<close> that
  lower-cases ASCII, \<open>"My Cool App!"\<close> becomes \<open>"my-cool-app-"\<close>.
\<close>

theorem toValidPackageName_as_specified:
  "toValidPackageName lc s = spec_toValidPackageName lc s \<and>
   (lowercases_ascii lc \<longrightarrow>
      toValidPackageName lc (js ''My Cool App!'') = js ''my-cool-app-'')"
proof
  show "toValidPackageName lc s = spec_toValidPackageName lc s"
    by (simp add: toValidPackageName_def spec_toValidPackageName_def replace_plus_g_runs
        replace_at_start_strip)
next
  show "lowercases_ascii lc \<longrightarrow>
      toValidPackageName lc (js ''My Cool App!'') = js ''my-cool-app-''"
  proof
    assume lc: "lowercases_ascii lc"
    have t: "trim (js ''My Cool App!'') = js ''My Cool App!''"
      by (simp add: js_def code_def trim_def is_space_def)
    have "list_all is_ascii (js ''My Cool App!'')"
      by (simp add: js_def code_def is_ascii_def)
    with lc have "lc (js ''My Cool App!'') = map ascii_lower (js ''My Cool App!'')"
      by (simp add: lowercases_ascii_def)
    also have "\<dots> = js ''my cool app!''"
      by (simp add: js_def code_def ascii_lower_def)
    finally have l: "lc (js ''My Cool App!'') = js ''my cool app!''" .
    show "toValidPackageName lc (js ''My Cool App!'') = js ''my-cool-app-''"
      unfolding toValidPackageName_def t l
      by (simp add: js_def code_def is_space_def hyphen_def is_dot_or_underscore_def
          not_name_first_def name_first_def is_az_def is_digit_def)
  qed
qed

theorem toValidPackageName_as_specified_witness:
  "lowercases_ascii toLowerCase_ascii \<and>
   toValidPackageName toLowerCase_ascii (js ''My Cool App!'') = js ''my-cool-app-'' \<and>
   spec_toValidPackageName toLowerCase_ascii (js ''My Cool App!'') = js ''my-cool-app-''"
proof -
  have h: "lowercases_ascii toLowerCase_ascii"
    by (simp add: lowercases_ascii_def toLowerCase_ascii_def)
  note r = toValidPackageName_as_specified [of toLowerCase_ascii "js ''My Cool App!''"]
  from r h
  have e: "toValidPackageName toLowerCase_ascii (js ''My Cool App!'') = js ''my-cool-app-''"
    by blast
  from r
  have "spec_toValidPackageName toLowerCase_ascii (js ''My Cool App!'') =
      toValidPackageName toLowerCase_ascii (js ''My Cool App!'')"
    by simp
  with e h show ?thesis by simp
qed

text \<open>
  C7: \<open>toValidPackageName\<close> is idempotent, for every \<open>toLowerCase\<close> that leaves a string of
  lower-case ASCII letters, digits, \<open>-\<close> and \<open>~\<close> as it is.
\<close>

theorem toValidPackageName_idempotent:
  "lowercases_ascii lc \<Longrightarrow>
   toValidPackageName lc (toValidPackageName lc s) = toValidPackageName lc s"
  by (rule toValidPackageName_fixed) (simp_all add: toValidPackageName_chars)

theorem toValidPackageName_idempotent_witness:
  "toValidPackageName toLowerCase_ascii (js ''my-cool-app-'') = js ''my-cool-app-''"
proof -
  have h: "lowercases_ascii toLowerCase_ascii"
    by (simp add: lowercases_ascii_def toLowerCase_ascii_def)
  have e: "toValidPackageName toLowerCase_ascii (js ''My Cool App!'') = js ''my-cool-app-''"
    by (simp add: toValidPackageName_def toLowerCase_ascii_def js_def code_def trim_def
        is_space_def ascii_lower_def hyphen_def is_dot_or_underscore_def not_name_first_def
        name_first_def is_az_def is_digit_def)
  from toValidPackageName_idempotent [OF h, of "js ''My Cool App!''"]
  show ?thesis by (simp only: e)
qed

text \<open>
  C9: the result of \<open>toValidPackageName\<close> need not be a valid package name: the empty
  string is normalized to the empty string, which \<open>isValidPackageName\<close> rejects.
\<close>

theorem toValidPackageName_not_always_valid:
  "lowercases_ascii lc \<Longrightarrow> \<exists>s. \<not> isValidPackageName (toValidPackageName lc s)"
proof
  assume "lowercases_ascii lc"
  then have "lc [] = []"
    by (simp add: lowercases_ascii_def)
  then have "toValidPackageName lc [] = []"
    by (simp add: toValidPackageName_def trim_def)
  then show "\<not> isValidPackageName (toValidPackageName lc [])"
    by (simp add: isValidPackageName_def test_anchored_def package_name_regex_def)
qed

theorem toValidPackageName_not_always_valid_witness:
  "\<exists>s. \<not> isValidPackageName (toValidPackageName toLowerCase_ascii s)"
proof -
  have h: "lowercases_ascii toLowerCase_ascii"
    by (simp add: lowercases_ascii_def toLowerCase_ascii_def)
  from toValidPackageName_not_always_valid [OF h] show ?thesis .
qed

text \<open>
  C10: every code unit of the result of \<open>toValidPackageName\<close> is in \<open>[a-z0-9-~]\<close>, and a
  result that is not empty is a valid package name.
\<close>

theorem toValidPackageName_valid_unless_empty:
  "list_all name_first (toValidPackageName lc s) \<and>
   (toValidPackageName lc s \<noteq> [] \<longrightarrow> isValidPackageName (toValidPackageName lc s))"
  by (simp add: toValidPackageName_chars valid_of_chars)

theorem toValidPackageName_valid_unless_empty_witness:
  "toValidPackageName toLowerCase_ascii (js ''My Cool App!'') = js ''my-cool-app-'' \<and>
   js ''my-cool-app-'' \<noteq> [] \<and> isValidPackageName (js ''my-cool-app-'')"
proof -
  have e: "toValidPackageName toLowerCase_ascii (js ''My Cool App!'') = js ''my-cool-app-''"
    by (simp add: toValidPackageName_def toLowerCase_ascii_def js_def code_def trim_def
        is_space_def ascii_lower_def hyphen_def is_dot_or_underscore_def not_name_first_def
        name_first_def is_az_def is_digit_def)
  have n: "js ''my-cool-app-'' \<noteq> []"
    by (simp add: js_def)
  from toValidPackageName_valid_unless_empty [of toLowerCase_ascii "js ''My Cool App!''"] e n
  show ?thesis by simp
qed

section \<open>Properties of the template catalog\<close>














section \<open>Properties of the run\<close>

lemma map_of_filter_key:
  "map_of (filter (\<lambda>(q, n). P q) fs) p = (if P p then map_of fs p else None)"
  by (induction fs) auto

lemma ask_projectName_Answered:
  "projectName_reply w = Answered v \<Longrightarrow> ask_projectName w td = Inr (onState v)"
  by (simp add: ask_projectName_def)

lemma ask_projectName_start:
  "projectName_reply w' = projectName_reply w \<Longrightarrow>
   projectName_states w' = projectName_states w \<Longrightarrow>
   ask_projectName w' td' = ask_projectName w td"
  by (cases "projectName_reply w") (simp_all add: ask_projectName_def)

lemma prompt_flow_overwrite:
  "prompt_flow h w repoTemplates = Inr result \<Longrightarrow> overwrite result \<noteq> Some False"
  by (auto simp: prompt_flow_def overwriteChecker_def split: sum.splits if_splits)

lemma init_ignores_positional:
  "init h (w\<lparr>argv := (argv w)\<lparr>positional := ps\<rparr>\<rparr>) = init h w"
proof -
  let ?w = "w\<lparr>argv := (argv w)\<lparr>positional := ps\<rparr>\<rparr>"
  have t: "argTemplate ?w = argTemplate w"
    by (simp add: argTemplate_def)
  have a1: "ask_projectName ?w (or_string (argTargetDir ?w) defaultTargetDir) =
      ask_projectName w (or_string (argTargetDir w) defaultTargetDir)"
    by (rule ask_projectName_start) simp_all
  have a2: "ask_overwrite ?w = ask_overwrite w"
    by (simp add: ask_overwrite_def fun_eq_iff cong: if_cong sum.case_cong)
  have a3: "ask_packageName h ?w = ask_packageName h w"
    by (simp add: ask_packageName_def fun_eq_iff Let_def cong: if_cong)
  have a4: "ask_template ?w = ask_template w"
    by (simp add: ask_template_def isValidTemplate_def t fun_eq_iff cong: if_cong)
  have p: "prompt_flow h ?w ts = prompt_flow h w ts" for ts
    by (simp only: prompt_flow_def a1 a2 a3 a4)
  have s: "scaffold h ?w ts result = scaffold h w ts result" for ts result
    by (simp add: scaffold_def selectedTemplete_def remove_existing_def t Let_def
        cong: if_cong option.case_cong prod.case_cong)
  show ?thesis
    by (simp add: init_def p s cong: option.case_cong sum.case_cong)
qed

text \<open>
  C5: when the submitted project name, as the operating system resolves it from the
  working directory, is an existing directory, \<open>isEmpty\<close> finds it not empty and the user
  answers \<open>false\<close> to the confirmation, the next question raises the cancellation, \<open>init\<close>
  catches it, prints its message and returns: the console holds that one message, the file
  system is the one the run started with, and no error leaves \<open>init\<close>.
\<close>

theorem overwrite_declined_changes_nothing:
  assumes "fetchTemplateRepositories (call_outcome (octokit w) (service w)) =
      Some (Inr repoTemplates)"
    and "projectName_reply w = Answered v"
    and "existsSync_at (files w) (cwd w) (onState v)"
    and "isEmpty (files w) (cwd w) (onState v) = Inr False"
    and "overwrite_reply w = Answered False"
  shows "init h w =
    Some \<lparr>console = [Log_message OperationCancelled], files_after = files w, thrown = None\<rparr>"
proof -
  from assms(2) have "ask_projectName w (or_string (argTargetDir w) defaultTargetDir) = Inr (onState v)"
    by (rule ask_projectName_Answered)
  moreover from assms(3-5) have "ask_overwrite w (onState v) = Inr (Some False)"
    by (simp add: ask_overwrite_def)
  ultimately have "prompt_flow h w repoTemplates = Inl OperationCancelled"
    by (simp add: prompt_flow_def overwriteChecker_def)
  with assms(1) show ?thesis
    by (simp add: init_def)
qed

lemmas string_eval = js_def code_def trim_def is_space_def is_slash_def

lemmas name_eval = isValidPackageName_def test_anchored_def package_name_regex_def
  scope_first_def scope_rest_def name_first_def name_rest_def is_az_def is_digit_def

lemmas path_eval = path_join_def walk_def

lemmas fs_eval = existsSync_def readdirSync_def readFileSync_def writeFileSync_def
  rmSync_recursive_def rmSync_force_def isEmpty_def existsSync_at_def readdirSync_at_def
  resolve_def enter_def is_directory_def

lemma example_catalog:
  "fetchTemplateRepositories (call_outcome (octokit example_world) (service example_world)) =
   Some (Inr [example_template])"
proof -
  have "call_outcome (octokit example_world) (service example_world) 0 =
      Inr \<lparr>items = [example_template], total_count = 1\<rparr>"
    by (simp add: example_world_def call_outcome_def octokit_request_def attempt.simps)
  then show ?thesis
    unfolding fetchTemplateRepositories_def
    by (subst fetch_loop.simps) simp
qed

lemma onState_default: "onState (js ''my-project'') = js ''my-project''"
  by (simp add: onState_def or_string_def formatTargetDir_def string_eval)

lemma example_root:
  "path_join [js ''home''] (js ''my-project'') = [js ''home'', js ''my-project'']"
  by (simp add: path_eval string_eval)

lemma example_valid: "isValidPackageName (js ''my-project'')"
  by (simp add: name_eval string_eval)

theorem overwrite_declined_changes_nothing_witness:
  "init example_host (example_world\<lparr>overwrite_reply := Answered False\<rparr>) =
   Some \<lparr>console = [Log_message OperationCancelled],
         files_after =
           [([js ''home''], Dir),
            ([js ''home'', js ''my-project''], Dir),
            ([js ''home'', js ''my-project'', js ''notes.txt''], File (js ''keep''))],
         thrown = None\<rparr>"
proof -
  let ?w = "example_world\<lparr>overwrite_reply := Answered False\<rparr>"
  have "service ?w = service example_world" "octokit ?w = octokit example_world"
    by simp_all
  then have 1: "fetchTemplateRepositories (call_outcome (octokit ?w) (service ?w)) =
      Some (Inr [example_template])"
    by (simp only: example_catalog)
  have 2: "projectName_reply ?w = Answered (js ''my-project'')"
    by (simp add: example_world_def)
  have c: "cwd ?w = [js ''home'']"
    by (simp add: example_world_def)
  have f: "files ?w =
      [([js ''home''], Dir),
       ([js ''home'', js ''my-project''], Dir),
       ([js ''home'', js ''my-project'', js ''notes.txt''], File (js ''keep''))]"
    by (simp add: example_world_def)
  have 3: "existsSync_at (files ?w) (cwd ?w) (onState (js ''my-project''))"
    unfolding c f onState_default
    by (simp add: fs_eval string_eval)
  have 4: "isEmpty (files ?w) (cwd ?w) (onState (js ''my-project'')) = Inr False"
    unfolding c f onState_default
    by (simp add: fs_eval string_eval)
  have 5: "overwrite_reply ?w = Answered False"
    by simp
  from overwrite_declined_changes_nothing [OF 1 2 3 4 5, of example_host]
  show ?thesis by (simp only: f)
qed

lemma remove_existing_after_flow:
  assumes "prompt_flow h w repoTemplates = Inr result"
  shows "remove_existing w result =
    (if existsSync (files w) (path_join (cwd w) (targetDir result))
     then rmSync_recursive (files w) (path_join (cwd w) (targetDir result))
     else files w)"
proof -
  from assms have "overwrite result \<noteq> Some False"
    by (rule prompt_flow_overwrite)
  then have "\<not> truthy_bool (overwrite result) \<or> overwrite result = Some True"
    by (cases "overwrite result") (auto simp: truthy_bool_def)
  then show ?thesis
    by (simp add: remove_existing_def Let_def)
qed

lemma remove_existing_writes_nothing:
  "map_of (remove_existing w result) p = None \<or>
   map_of (remove_existing w result) p = map_of (files w) p"
  by (simp add: remove_existing_def Let_def rmSync_recursive_def map_of_filter_key)





lemmas flow_eval = prompt_flow_def ask_projectName_def ask_overwrite_def overwriteChecker_def
  ask_packageName_def ask_template_def isValidTemplate_def argTemplate_def argTargetDir_def
  onState_def or_string_def or_option_def truthy_def truthy_bool_def formatTargetDir_def
  getProjectName_def defaultTargetDir_def path_basename_def

lemmas scaffold_eval = scaffold_def remove_existing_def selectedTemplete_def clone_callback_def
  rename_package_def clean_def

lemma example_flow:
  "prompt_flow example_host example_world [example_template] =
   Inr \<lparr>targetDir = js ''my-project'', overwrite = Some True, packageName = None,
        template = None\<rparr>"
  by (simp add: flow_eval example_world_def example_template_def path_eval fs_eval name_eval
      string_eval)





text \<open>
  C2 fails on the program. With the positional argument \<open>foo\<close> and a user who accepts the
  default at the project name prompt, the argument is normalized to \<open>foo\<close> but the prompt
  flow ends with the target directory \<open>my-project\<close> and the clone goes there. The lemma
  \<open>init_ignores_positional\<close> above shows that the argument never has an effect.
\<close>

theorem positional_argument_overridden:
  "argTargetDir example_world = Some (js ''foo'') \<and>
   prompt_flow example_host example_world [example_template] =
     Inr \<lparr>targetDir = js ''my-project'', overwrite = Some True, packageName = None,
          template = None\<rparr> \<and>
   map_option console (init example_host example_world) =
     Some [Log_cloning [js ''home'', js ''my-project''], Log_done]"
proof (intro conjI)
  show "argTargetDir example_world = Some (js ''foo'')"
    by (simp add: flow_eval example_world_def string_eval)
  show "prompt_flow example_host example_world [example_template] =
     Inr \<lparr>targetDir = js ''my-project'', overwrite = Some True, packageName = None,
          template = None\<rparr>"
    by (rule example_flow)
  have "console (scaffold example_host example_world [example_template]
      \<lparr>targetDir = js ''my-project'', overwrite = Some True, packageName = None,
       template = None\<rparr>) =
    [Log_cloning [js ''home'', js ''my-project''], Log_done]"
    by (simp add: scaffold_eval flow_eval example_world_def example_template_def
        example_host_def example_clone_def example_descriptor_def path_eval fs_eval string_eval
        Let_def)
  with example_catalog example_flow
  show "map_option console (init example_host example_world) =
     Some [Log_cloning [js ''home'', js ''my-project''], Log_done]"
    by (simp add: init_def)
qed

lemma assign_lookup: "map_of (assign kvs key v) key = Some v"
  by (induction kvs key v rule: assign.induct) auto

lemma assign_others:
  "filter (\<lambda>kv. fst kv \<noteq> key) (assign kvs key v) = filter (\<lambda>kv. fst kv \<noteq> key) kvs"
  by (induction kvs key v rule: assign.induct) auto

lemma assign_not_empty: "assign kvs key v \<noteq> []"
  by (cases kvs) (auto split: if_splits)

lemma stringify_object:
  "kvs \<noteq> [] \<Longrightarrow>
   JSON_stringify (JObject kvs) 2 =
   js ''{'' @ newline @
   join_with (js '','' @ newline)
     (map (\<lambda>kv. js ''  '' @ quote (fst kv) @ js '': '' @ serialize 2 1 (snd kv)) kvs) @
   newline @ js ''}''"
proof -
  have "indentation 2 (Suc 0) = js ''  ''"
    by (simp add: indentation_def js_def numeral_2_eq_2)
  moreover assume "kvs \<noteq> []"
  ultimately show ?thesis
    by (simp add: JSON_stringify_def indentation_def)
qed

lemma rename_package_object:
  assumes "map_of fs (root @ [js ''package.json'']) = Some (File text)"
    and "host_JSON_parse h text = Inr (JObject kvs)"
  shows "rename_package h root pn projectName fs =
    (None,
     (root @ [js ''package.json''],
      File (JSON_stringify
              (JObject (assign kvs (js ''name'') (JString (or_string pn projectName)))) 2 @
            newline)) #
     filter (\<lambda>(q, n). q \<noteq> root @ [js ''package.json'']) fs)"
  using assms
  by (simp add: rename_package_def Let_def existsSync_def readFileSync_def writeFileSync_def)

lemma clean_keeps_package:
  "map_of (snd (clean root fs)) (root @ [js ''package.json'']) =
   map_of fs (root @ [js ''package.json''])"
proof -
  have n: "js ''package.json'' \<noteq> js ''.git''" "js ''package.json'' \<noteq> js ''package-lock.json''"
    "js ''package.json'' \<noteq> js ''yarn.lock''"
    by (simp_all add: js_def code_def)
  have r: "map_of (rmSync_recursive fs (root @ [js ''.git''])) (root @ [js ''package.json'']) =
      map_of fs (root @ [js ''package.json''])"
    using n by (simp add: rmSync_recursive_def map_of_filter_key)
  have f: "map_of (filter (\<lambda>(q, n). q \<noteq> root @ [x]) fs') (root @ [js ''package.json'']) =
      map_of fs' (root @ [js ''package.json''])" if "js ''package.json'' \<noteq> x" for x fs'
    using that by (simp add: map_of_filter_key)
  show ?thesis
    using n r
    by (auto simp: clean_def Let_def rmSync_force_def f split: sum.splits option.splits node.splits)
qed

lemma clone_callback_object:
  assumes "map_of fs (root @ [js ''package.json'']) = Some (File text)"
    and "host_JSON_parse h text = Inr (JObject kvs)"
  shows "map_of (fst (snd (clone_callback h root pn projectName fs))) (root @ [js ''package.json'']) =
    Some (File (JSON_stringify
              (JObject (assign kvs (js ''name'') (JString (or_string pn projectName)))) 2 @
            newline))"
proof -
  let ?fs1 = "(root @ [js ''package.json''],
      File (JSON_stringify
              (JObject (assign kvs (js ''name'') (JString (or_string pn projectName)))) 2 @
            newline)) #
     filter (\<lambda>(q, n). q \<noteq> root @ [js ''package.json'']) fs"
  have 1: "rename_package h root pn projectName fs = (None, ?fs1)"
    using assms by (rule rename_package_object)
  have "fst (snd (clone_callback h root pn projectName fs)) = snd (clean root ?fs1)"
    by (simp add: clone_callback_def 1 split: prod.splits option.splits)
  then show ?thesis
    by (simp add: clean_keeps_package)
qed

text \<open>
  C8: when the clone succeeded and left a \<open>package.json\<close> that parses to an object, the
  run ends with that file holding the serialization of the object whose \<open>name\<close> is the
  package name of the prompt flow, or the project name when there is none. The other
  properties and their order are those of the parsed object; the text is \<open>{\<close>, one line
  per property behind two spaces, \<open>}\<close> and one newline.
\<close>

theorem package_json_name_rewritten:
  assumes "selectedTemplete w repoTemplates result = Some selected"
    and "git_clone w (clone_url selected) (targetDir result) (remove_existing w result) =
      (None, fs)"
    and "map_of fs (path_join (cwd w) (targetDir result) @ [js ''package.json'']) =
      Some (File text)"
    and "host_JSON_parse h text = Inr (JObject kvs)"
  shows
    "let newName = or_string (packageName result) (getProjectName (cwd w) (targetDir result));
         pkg = assign kvs (js ''name'') (JString newName);
         written = JSON_stringify (JObject pkg) 2 @ newline
     in map_of (files_after (scaffold h w repoTemplates result))
          (path_join (cwd w) (targetDir result) @ [js ''package.json'']) =
          Some (File written) \<and>
        map_of pkg (js ''name'') = Some (JString newName) \<and>
        filter (\<lambda>kv. fst kv \<noteq> js ''name'') pkg = filter (\<lambda>kv. fst kv \<noteq> js ''name'') kvs \<and>
        written =
          js ''{'' @ newline @
          join_with (js '','' @ newline)
            (map (\<lambda>kv. js ''  '' @ quote (fst kv) @ js '': '' @ serialize 2 1 (snd kv)) pkg) @
          newline @ js ''}'' @ newline \<and>
        (packageName result = None \<longrightarrow>
           newName = getProjectName (cwd w) (targetDir result))"
proof -
  let ?root = "path_join (cwd w) (targetDir result)"
  let ?pn = "packageName result"
  let ?proj = "getProjectName (cwd w) (targetDir result)"
  have "files_after (scaffold h w repoTemplates result) =
      fst (snd (clone_callback h ?root ?pn ?proj fs))"
    using assms(1,2) by (simp add: scaffold_def Let_def split: prod.splits)
  then have 1: "map_of (files_after (scaffold h w repoTemplates result))
      (?root @ [js ''package.json'']) =
    Some (File (JSON_stringify
              (JObject (assign kvs (js ''name'') (JString (or_string ?pn ?proj)))) 2 @
            newline))"
    using clone_callback_object [OF assms(3,4)] by simp
  have 2: "JSON_stringify (JObject (assign kvs (js ''name'') (JString (or_string ?pn ?proj)))) 2 =
      js ''{'' @ newline @
      join_with (js '','' @ newline)
        (map (\<lambda>kv. js ''  '' @ quote (fst kv) @ js '': '' @ serialize 2 1 (snd kv))
           (assign kvs (js ''name'') (JString (or_string ?pn ?proj)))) @
      newline @ js ''}''"
    by (rule stringify_object) (rule assign_not_empty)
  have 3: "?pn = None \<longrightarrow> or_string ?pn ?proj = ?proj"
    by (simp add: or_string_def)
  show ?thesis
    unfolding Let_def
    by (intro conjI 1 assign_lookup assign_others 3) (simp only: 2 append_assoc)
qed

theorem package_json_name_rewritten_witness:
  "map_of
     (files_after
        (scaffold example_host example_world [example_template]
           \<lparr>targetDir = js ''my-project'', overwrite = Some True,
            packageName = Some (js ''demo-app''), template = None\<rparr>))
     [js ''home'', js ''my-project'', js ''package.json''] =
   Some (File
     (js ''{'' @ [0xA] @
      js ''  '' @ [0x22] @ js ''name'' @ [0x22] @ js '': '' @
        [0x22] @ js ''demo-app'' @ [0x22] @ js '','' @ [0xA] @
      js ''  '' @ [0x22] @ js ''version'' @ [0x22] @ js '': '' @
        [0x22] @ js ''1.0.0'' @ [0x22] @ [0xA] @
      js ''}'' @ [0xA]))"
proof -
  let ?result = "\<lparr>targetDir = js ''my-project'', overwrite = Some True,
            packageName = Some (js ''demo-app''), template = None\<rparr>"
  let ?fs = "[([js ''home'', js ''my-project''], Dir),
       ([js ''home'', js ''my-project'', js ''.git''], Dir),
       ([js ''home'', js ''my-project'', js ''.git'', js ''HEAD''], File (js ''ref'')),
       ([js ''home'', js ''my-project'', js ''package.json''], File (js ''descriptor of t1'')),
       ([js ''home'', js ''my-project'', js ''yarn.lock''], File (js ''lock'')),
       ([js ''home''], Dir)]"
  let ?kvs = "[(js ''name'', JString (js ''template-default'')),
       (js ''version'', JString (js ''1.0.0''))]"
  have 1: "selectedTemplete example_world [example_template] ?result = Some example_template"
    by (simp add: selectedTemplete_def flow_eval example_world_def example_template_def
        string_eval)
  have 2: "git_clone example_world (clone_url example_template) (targetDir ?result)
      (remove_existing example_world ?result) = (None, ?fs)"
    by (simp add: remove_existing_def flow_eval example_world_def example_clone_def path_eval
        fs_eval string_eval Let_def)
  have p: "path_join (cwd example_world) (targetDir ?result) = [js ''home'', js ''my-project'']"
    by (simp add: example_world_def path_eval string_eval)
  have 3: "map_of ?fs (path_join (cwd example_world) (targetDir ?result) @ [js ''package.json'']) =
      Some (File (js ''descriptor of t1''))"
    unfolding p by (simp add: string_eval)
  have 4: "host_JSON_parse example_host (js ''descriptor of t1'') = Inr (JObject ?kvs)"
    by (simp add: example_host_def example_descriptor_def)
  have n: "or_string (packageName ?result)
      (getProjectName (cwd example_world) (targetDir ?result)) = js ''demo-app''"
    by (simp add: or_string_def js_def)
  have e: "JSON_stringify (JObject (assign ?kvs (js ''name'') (JString (js ''demo-app'')))) 2 @
      newline =
    js ''{'' @ [0xA] @
      js ''  '' @ [0x22] @ js ''name'' @ [0x22] @ js '': '' @
        [0x22] @ js ''demo-app'' @ [0x22] @ js '','' @ [0xA] @
      js ''  '' @ [0x22] @ js ''version'' @ [0x22] @ js '': '' @
        [0x22] @ js ''1.0.0'' @ [0x22] @ [0xA] @
      js ''}'' @ [0xA]"
    by code_simp
  from package_json_name_rewritten [OF 1 2 3 4]
  have "map_of (files_after (scaffold example_host example_world [example_template] ?result))
      (path_join (cwd example_world) (targetDir ?result) @ [js ''package.json'']) =
    Some (File (JSON_stringify (JObject (assign ?kvs (js ''name'')
      (JString (or_string (packageName ?result)
         (getProjectName (cwd example_world) (targetDir ?result)))))) 2 @ newline))"
    unfolding Let_def by (rule conjunct1)
  then show ?thesis
    unfolding p n e by simp
qed

end
